theory Spec2Isabelle
  imports Complex_Main
begin

section \<open>JavaScript values\<close>

text \<open>
  The helper class \<open>XeroClientHelper\<close> handles token sets and tenants as values of
  type \<open>any\<close>. They are modelled as plain data: the primitives, arrays and objects
  with own data properties (an association list, the first binding of a key wins).
  A number is a finite value, kept exact as a rational (the sign of zero is not kept:
  \<open>-0\<close> and \<open>0\<close> are both falsy and compare alike), one of the two infinities, or
  \<open>NaN\<close>. A string is a list of 8-bit characters, read as the code units below
  \<open>0x100\<close>.
\<close>

datatype jsnum = NaN | PosInf | NegInf | Fin rat

datatype jsval =
    JUndefined
  | JNull
  | JBool bool
  | JNum jsnum
  | JStr string
  | JArr "jsval list"
  | JObj "(string \<times> jsval) list"

text \<open>A thrown value: \<open>new Error(m)\<close>, a \<open>TypeError\<close> of the engine, or any other
  value a collaborator throws, kept as the text a template literal renders it to.\<close>

datatype exn = Error string | TypeError string | Thrown string

fun exn_text :: "exn \<Rightarrow> string" where
  "exn_text (Error m) = ''Error: '' @ m"
| "exn_text (TypeError m) = ''TypeError: '' @ m"
| "exn_text (Thrown s) = s"

text \<open>\<open>ToBoolean\<close> on numbers and on values.\<close>

fun truthy_num :: "jsnum \<Rightarrow> bool" where
  "truthy_num NaN = False"
| "truthy_num PosInf = True"
| "truthy_num NegInf = True"
| "truthy_num (Fin q) = (q \<noteq> 0)"

fun truthy :: "jsval \<Rightarrow> bool" where
  "truthy JUndefined = False"
| "truthy JNull = False"
| "truthy (JBool b) = b"
| "truthy (JNum n) = truthy_num n"
| "truthy (JStr s) = (s \<noteq> [])"
| "truthy (JArr xs) = True"
| "truthy (JObj kvs) = True"

text \<open>Subtraction and \<open><\<close> of IEEE numbers: \<open>NaN\<close> propagates, and every comparison
  with \<open>NaN\<close> is false.\<close>

fun num_sub :: "jsnum \<Rightarrow> jsnum \<Rightarrow> jsnum" where
  "num_sub NaN b = NaN"
| "num_sub a NaN = NaN"
| "num_sub PosInf PosInf = NaN"
| "num_sub NegInf NegInf = NaN"
| "num_sub PosInf b = PosInf"
| "num_sub NegInf b = NegInf"
| "num_sub (Fin a) PosInf = NegInf"
| "num_sub (Fin a) NegInf = PosInf"
| "num_sub (Fin a) (Fin b) = Fin (a - b)"

fun num_lt :: "jsnum \<Rightarrow> jsnum \<Rightarrow> bool" where
  "num_lt NaN b = False"
| "num_lt a NaN = False"
| "num_lt PosInf b = False"
| "num_lt a NegInf = False"
| "num_lt NegInf b = True"
| "num_lt (Fin a) PosInf = True"
| "num_lt (Fin a) (Fin b) = (a < b)"

text \<open>\<open>v?.k\<close> for the property names the helper reads (\<open>expires_at\<close>,
  \<open>refresh_token\<close>, \<open>tenantId\<close>): the own property of an object, \<open>undefined\<close> on
  \<open>null\<close> and \<open>undefined\<close> (the optional chain) and on every value that has no such
  property.\<close>

fun opt_member :: "jsval \<Rightarrow> string \<Rightarrow> jsval" where
  "opt_member (JObj kvs) k = (case map_of kvs k of None \<Rightarrow> JUndefined | Some v \<Rightarrow> v)"
| "opt_member v k = JUndefined"

text \<open>\<open>String.prototype.trim\<close>: white space and line terminators among the code units
  below \<open>0x100\<close> are TAB, LF, VT, FF, CR, SP and NBSP.\<close>

definition js_space :: "char \<Rightarrow> bool" where
  "js_space c = (c \<in> {CHR 0x09, CHR 0x0A, CHR 0x0B, CHR 0x0C, CHR 0x0D, CHR 0x20, CHR 0xA0})"

definition trim :: "string \<Rightarrow> string" where
  "trim s = rev (dropWhile js_space (rev (dropWhile js_space s)))"

text \<open>\<open>s.split(c)\<close> for a one-character separator: the empty string splits into one
  empty piece.\<close>

fun split_on :: "char \<Rightarrow> string \<Rightarrow> string list" where
  "split_on c [] = [[]]"
| "split_on c (x # xs) =
     (if x = c then [] # split_on c xs
      else (case split_on c xs of [] \<Rightarrow> [[x]] | y # ys \<Rightarrow> (x # y) # ys))"


section \<open>The wrapped client, the world and the collaborators\<close>

text \<open>
  The fields of the wrapped \<open>XeroClient\<close> that the helper reads through its
  \<open>any\<close> cast: \<open>tokenSet\<close>, of any shape, and \<open>tenants\<close>, which the SDK declares
  as an array and which may be unset (\<open>None\<close>).
\<close>

record xero_client =
  tokenSet :: jsval
  tenants :: "jsval list option"

text \<open>Every call that leaves the helper is recorded, in order.\<close>

datatype event =
    RedisGet string
  | RedisSet string string
  | SetTokenSet jsval
  | UpdateTenants
  | RefreshWithRefreshToken jsval jsval jsval
  | ApiCallback string
  | ConsoleError string exn

record world =
  xeroClient :: xero_client
  trace :: "event list"

text \<open>
  What is not code of the helper is a parameter: the process environment, the clock,
  the built-ins whose result the helper only passes on, the Redis client and the
  methods of the SDK. A collaborator sees the world at the moment of the call (the
  trace included, so that two calls never have to agree), answers with a value or
  throws, and an SDK method also leaves the client in a state of its choice.
  \<open>Date.now()\<close> is the number of milliseconds elapsed since the epoch.
\<close>

record env =
  XERO_CLIENT_ID :: "string option"
  XERO_CLIENT_SECRET :: "string option"
  XERO_REDIRECT_URIS :: "string option"
  Date_now :: "world \<Rightarrow> nat"
  StringToNumber :: "string \<Rightarrow> jsnum"
  ObjectToNumber :: "jsval \<Rightarrow> exn + jsnum"
  encodeURIComponent :: "string \<Rightarrow> exn + string"
  JSON_stringify :: "jsval \<Rightarrow> exn + string"
  JSON_parse :: "string \<Rightarrow> exn + jsval"
  redis_get :: "string \<Rightarrow> world \<Rightarrow> exn + string option"
  redis_set :: "string \<Rightarrow> string \<Rightarrow> world \<Rightarrow> exn + unit"
  has_setTokenSet :: bool
  sdk_setTokenSet :: "jsval \<Rightarrow> world \<Rightarrow> (exn + unit) \<times> xero_client"
  sdk_updateTenants :: "world \<Rightarrow> (exn + unit) \<times> xero_client"
  sdk_refreshWithRefreshToken ::
    "jsval \<Rightarrow> jsval \<Rightarrow> jsval \<Rightarrow> world \<Rightarrow> (exn + jsval) \<times> xero_client"
  sdk_apiCallback :: "string \<Rightarrow> world \<Rightarrow> (exn + jsval) \<times> xero_client"

text \<open>\<open>process.env.X\<close> is a string or \<open>undefined\<close>.\<close>

definition env_val :: "string option \<Rightarrow> jsval" where
  "env_val v = (case v of None \<Rightarrow> JUndefined | Some s \<Rightarrow> JStr s)"

text \<open>\<open>Number(v)\<close>: the conversion of a primitive is fixed by the language, that of
  a string and of an object (which may run code of the object and throw) is the
  built-in's.\<close>

fun Number :: "env \<Rightarrow> jsval \<Rightarrow> exn + jsnum" where
  "Number E JUndefined = Inr NaN"
| "Number E JNull = Inr (Fin 0)"
| "Number E (JBool b) = Inr (Fin (if b then 1 else 0))"
| "Number E (JNum n) = Inr n"
| "Number E (JStr s) = Inr (StringToNumber E s)"
| "Number E (JArr xs) = ObjectToNumber E (JArr xs)"
| "Number E (JObj kvs) = ObjectToNumber E (JObj kvs)"


section \<open>Asynchronous methods as state and exception passing\<close>

text \<open>A method takes the world and returns the value it resolves to, or the value it
  throws, with the world it leaves.\<close>

type_synonym 'a prog = "world \<Rightarrow> (exn + 'a) \<times> world"

definition returnP :: "'a \<Rightarrow> 'a prog" where
  "returnP x = (\<lambda>w. (Inr x, w))"

definition throwP :: "exn \<Rightarrow> 'a prog" where
  "throwP e = (\<lambda>w. (Inl e, w))"

definition bindP :: "'a prog \<Rightarrow> ('a \<Rightarrow> 'b prog) \<Rightarrow> 'b prog" where
  "bindP m f = (\<lambda>w. case m w of (Inl e, w') \<Rightarrow> (Inl e, w') | (Inr x, w') \<Rightarrow> f x w')"

definition try_catch :: "'a prog \<Rightarrow> (exn \<Rightarrow> 'a prog) \<Rightarrow> 'a prog" where
  "try_catch m h = (\<lambda>w. case m w of (Inl e, w') \<Rightarrow> h e w' | (Inr x, w') \<Rightarrow> (Inr x, w'))"

definition liftE :: "exn + 'a \<Rightarrow> 'a prog" where
  "liftE r = (\<lambda>w. (r, w))"

definition record_event :: "event \<Rightarrow> world \<Rightarrow> world" where
  "record_event ev w = w\<lparr>trace := trace w @ [ev]\<rparr>"

definition call_redis :: "event \<Rightarrow> (world \<Rightarrow> exn + 'a) \<Rightarrow> 'a prog" where
  "call_redis ev f = (\<lambda>w. let w1 = record_event ev w in (f w1, w1))"

definition call_sdk :: "event \<Rightarrow> (world \<Rightarrow> (exn + 'a) \<times> xero_client) \<Rightarrow> 'a prog" where
  "call_sdk ev f =
     (\<lambda>w. let w1 = record_event ev w in (fst (f w1), w1\<lparr>xeroClient := snd (f w1)\<rparr>))"

definition console_error :: "string \<Rightarrow> exn \<Rightarrow> unit prog" where
  "console_error msg e = (\<lambda>w. (Inr (), record_event (ConsoleError msg e) w))"


section \<open>XeroClientHelper\<close>

definition TOKEN_SET_KEY :: string where
  "TOKEN_SET_KEY = ''xero:oauth:tokenSet''"

text \<open>The constructor's \<open>redirectUris\<close>: \<open>XERO_REDIRECT_URIS\<close> (or the empty string)
  split at commas, each piece trimmed, the empty pieces dropped.\<close>

definition redirectUris :: "env \<Rightarrow> string list" where
  "redirectUris E =
     filter (\<lambda>v. v \<noteq> [])
       (map trim (split_on (CHR '','')
          (case XERO_REDIRECT_URIS E of None \<Rightarrow> [] | Some s \<Rightarrow> s)))"

text \<open>\<open>saveTokenSet\<close>: serialise \<open>tokenSet || {}\<close> and write it under the fixed key;
  whatever is thrown is logged.\<close>

definition saveTokenSet :: "env \<Rightarrow> jsval \<Rightarrow> unit prog" where
  "saveTokenSet E ts =
     try_catch
       (bindP (liftE (JSON_stringify E (if truthy ts then ts else JObj []))) (\<lambda>data.
          call_redis (RedisSet TOKEN_SET_KEY data) (redis_set E TOKEN_SET_KEY data)))
       (\<lambda>error. console_error ''Failed to save token set:'' error)"

text \<open>\<open>loadTokenSet\<close>: \<open>null\<close> when the key holds nothing or the empty string, the
  parsed payload otherwise; whatever is thrown is logged and gives \<open>null\<close>.\<close>

definition loadTokenSet :: "env \<Rightarrow> jsval prog" where
  "loadTokenSet E =
     try_catch
       (bindP (call_redis (RedisGet TOKEN_SET_KEY) (redis_get E TOKEN_SET_KEY)) (\<lambda>raw.
          case raw of
            None \<Rightarrow> returnP JNull
          | Some s \<Rightarrow> if s = [] then returnP JNull else liftE (JSON_parse E s)))
       (\<lambda>error. bindP (console_error ''Failed to load token set:'' error) (\<lambda>_.
          returnP JNull))"

text \<open>\<open>setClientTokenSet\<close>: nothing for a falsy token set; the SDK's \<open>setTokenSet\<close>
  when the client has one, an assignment to the field otherwise.\<close>

definition setClientTokenSet :: "env \<Rightarrow> jsval \<Rightarrow> unit prog" where
  "setClientTokenSet E ts =
     (if \<not> truthy ts then returnP ()
      else if has_setTokenSet E then call_sdk (SetTokenSet ts) (sdk_setTokenSet E ts)
      else (\<lambda>w. (Inr (), w\<lparr>xeroClient := (xeroClient w)\<lparr>tokenSet := ts\<rparr>\<rparr>)))"

text \<open>\<open>isExpiredOrNearExpiry\<close>: \<open>nowSeconds = Math.floor(Date.now() / 1000)\<close>,
  \<open>expiresAt = Number(tokenSet?.expires_at) || 0\<close>, and the answer is
  \<open>!expiresAt || expiresAt - nowSeconds < 60\<close>; \<open>true\<close> when anything throws.\<close>

definition isExpiredOrNearExpiry :: "env \<Rightarrow> jsval \<Rightarrow> bool prog" where
  "isExpiredOrNearExpiry E ts =
     try_catch
       (\<lambda>w. let nowSeconds = Fin (of_nat (Date_now E w div 1000)) in
          bindP (liftE (Number E (opt_member ts ''expires_at''))) (\<lambda>n.
            let expiresAt = (if truthy_num n then n else Fin 0) in
            returnP (\<not> truthy_num expiresAt \<or> num_lt (num_sub expiresAt nowSeconds) (Fin 60)))
          w)
       (\<lambda>_. returnP True)"

text \<open>\<open>ensureAuthenticated\<close>, from its end. The last part (the refresh): when the
  stored record has a truthy \<open>refresh_token\<close>, the SDK's refresh is called with
  \<open>XERO_CLIENT_ID\<close>, \<open>XERO_CLIENT_SECRET\<close> and that token; a truthy answer is
  applied and saved, and the method returns. Whatever is thrown in there is logged.
  In every other case the method throws.\<close>

definition ensureAuthenticated_refresh :: "env \<Rightarrow> jsval \<Rightarrow> unit prog" where
  "ensureAuthenticated_refresh E stored =
     bindP
       (try_catch
          (if truthy (opt_member stored ''refresh_token'') then
             bindP
               (call_sdk
                  (RefreshWithRefreshToken (env_val (XERO_CLIENT_ID E))
                     (env_val (XERO_CLIENT_SECRET E)) (opt_member stored ''refresh_token''))
                  (sdk_refreshWithRefreshToken E (env_val (XERO_CLIENT_ID E))
                     (env_val (XERO_CLIENT_SECRET E)) (opt_member stored ''refresh_token'')))
               (\<lambda>refreshed.
                  if truthy refreshed then
                    bindP (setClientTokenSet E refreshed) (\<lambda>_.
                    bindP (saveTokenSet E refreshed) (\<lambda>_. returnP True))
                  else returnP False)
           else returnP False)
          (\<lambda>error. bindP (console_error ''Token refresh failed:'' error) (\<lambda>_.
             returnP False)))
       (\<lambda>returned.
          if returned then returnP ()
          else throwP (Error ''Xero authentication required. Please connect via OAuth flow.''))"

text \<open>The middle part: the stored token set is loaded; a truthy one is applied to the
  client, and the method returns when it is not expired.\<close>

definition ensureAuthenticated_load :: "env \<Rightarrow> unit prog" where
  "ensureAuthenticated_load E =
     bindP (loadTokenSet E) (\<lambda>stored.
       if truthy stored then
         bindP (setClientTokenSet E stored) (\<lambda>_.
         bindP (isExpiredOrNearExpiry E stored) (\<lambda>expired.
           if \<not> expired then returnP () else ensureAuthenticated_refresh E stored))
       else ensureAuthenticated_refresh E stored)"

text \<open>The first part: the method returns at once when the client's token set is truthy
  and not expired.\<close>

definition ensureAuthenticated :: "env \<Rightarrow> unit prog" where
  "ensureAuthenticated E =
     (\<lambda>w. let currentTokenSet = tokenSet (xeroClient w) in
        (if truthy currentTokenSet then
           bindP (isExpiredOrNearExpiry E currentTokenSet) (\<lambda>expired.
             if \<not> expired then returnP () else ensureAuthenticated_load E)
         else ensureAuthenticated_load E) w)"

text \<open>\<open>getTenants\<close>: after \<open>ensureAuthenticated\<close>, the client's tenants are fetched
  when the field is unset or empty, and \<open>x.tenants || []\<close> is returned; what the fetch
  throws is wrapped.\<close>

definition getTenants :: "env \<Rightarrow> jsval list prog" where
  "getTenants E =
     bindP (ensureAuthenticated E) (\<lambda>_.
       try_catch
         (bindP
            (\<lambda>w. (case tenants (xeroClient w) of
                     None \<Rightarrow> call_sdk UpdateTenants (sdk_updateTenants E)
                   | Some xs \<Rightarrow>
                       if length xs = 0 then call_sdk UpdateTenants (sdk_updateTenants E)
                       else returnP ()) w)
            (\<lambda>_ w. (Inr (case tenants (xeroClient w) of None \<Rightarrow> [] | Some xs \<Rightarrow> xs), w)))
         (\<lambda>error. throwP (Error (''Failed to retrieve tenants: '' @ exn_text error))))"

text \<open>\<open>getActiveTenantId\<close>: \<open>tenants?.[1]?.tenantId\<close>, where an index past the end of
  the array gives \<open>undefined\<close>.\<close>

definition getActiveTenantId :: "env \<Rightarrow> jsval prog" where
  "getActiveTenantId E =
     bindP (ensureAuthenticated E) (\<lambda>_.
     bindP (getTenants E) (\<lambda>tenants.
       let tenantId =
             opt_member (if 1 < length tenants then tenants ! 1 else JUndefined) ''tenantId''
       in if \<not> truthy tenantId then throwP (Error ''No connected Xero tenant found'')
          else returnP tenantId))"

text \<open>\<open>getTokenFromCode\<close>. \<open>code?.trim()\<close> is \<open>undefined\<close> for \<open>undefined\<close> and
  \<open>null\<close>, the trimmed string for a string, and a \<open>TypeError\<close> for any other value,
  which has no \<open>trim\<close> to call.\<close>

definition getTokenFromCode :: "env \<Rightarrow> jsval \<Rightarrow> jsval prog" where
  "getTokenFromCode E code =
     (case code of
        JUndefined \<Rightarrow> throwP (Error ''Authorization code is required'')
      | JNull \<Rightarrow> throwP (Error ''Authorization code is required'')
      | JStr c \<Rightarrow>
          if trim c = [] then throwP (Error ''Authorization code is required'')
          else
            (case redirectUris E of
               [] \<Rightarrow> throwP (Error ''XERO_REDIRECT_URIS not configured'')
             | redirectUri # _ \<Rightarrow>
                 if redirectUri = [] then throwP (Error ''XERO_REDIRECT_URIS not configured'')
                 else
                   try_catch
                     (bindP (liftE (encodeURIComponent E c)) (\<lambda>encoded.
                      bindP
                        (call_sdk (ApiCallback (redirectUri @ ''?code='' @ encoded))
                           (sdk_apiCallback E (redirectUri @ ''?code='' @ encoded)))
                        (\<lambda>ts.
                      bindP (setClientTokenSet E ts) (\<lambda>_.
                      bindP (call_sdk UpdateTenants (sdk_updateTenants E)) (\<lambda>_.
                      bindP (saveTokenSet E ts) (\<lambda>_. returnP ts))))))
                     (\<lambda>error.
                        throwP (Error (''Failed to exchange authorization code: ''
                                        @ exn_text error))))
      | _ \<Rightarrow> throwP (TypeError ''code?.trim is not a function''))"


section \<open>Inputs for the examples\<close>

text \<open>A process at second 1000 of the epoch, with credentials and one redirect URI, an
  empty cache that accepts writes, and an SDK whose \<open>setTokenSet\<close> stores the token
  set, whose refresh and code exchange are refused and whose tenant fetch finds no
  tenant.\<close>

definition demo_env :: env where
  "demo_env =
     \<lparr> XERO_CLIENT_ID = Some ''id'',
       XERO_CLIENT_SECRET = Some ''secret'',
       XERO_REDIRECT_URIS = Some ''http://localhost:3000/xero/callback'',
       Date_now = (\<lambda>_. 1000000),
       StringToNumber = (\<lambda>_. NaN),
       ObjectToNumber = (\<lambda>_. Inr NaN),
       encodeURIComponent = Inr,
       JSON_stringify = (\<lambda>_. Inr ''{}''),
       JSON_parse = (\<lambda>_. Inl (Thrown ''SyntaxError: Unexpected token'')),
       redis_get = (\<lambda>_ _. Inr None),
       redis_set = (\<lambda>_ _ _. Inr ()),
       has_setTokenSet = True,
       sdk_setTokenSet = (\<lambda>ts w. (Inr (), (xeroClient w)\<lparr>tokenSet := ts\<rparr>)),
       sdk_updateTenants = (\<lambda>w. (Inr (), (xeroClient w)\<lparr>tenants := Some []\<rparr>)),
       sdk_refreshWithRefreshToken = (\<lambda>_ _ _ w. (Inl (Thrown ''invalid_grant''), xeroClient w)),
       sdk_apiCallback = (\<lambda>_ w. (Inl (Thrown ''invalid_grant''), xeroClient w)) \<rparr>"

text \<open>The same process with a record in the cache, and with an SDK that also answers a
  refresh with a new record.\<close>

definition cached_env :: "jsval \<Rightarrow> env" where
  "cached_env stored =
     demo_env\<lparr> redis_get := (\<lambda>_ _. Inr (Some ''cached'')), JSON_parse := (\<lambda>_. Inr stored) \<rparr>"

definition refreshing_env :: "jsval \<Rightarrow> jsval \<Rightarrow> env" where
  "refreshing_env stored refreshed =
     (cached_env stored)\<lparr> sdk_refreshWithRefreshToken :=
        (\<lambda>_ _ _ w. (Inr refreshed, (xeroClient w)\<lparr>tokenSet := refreshed\<rparr>)) \<rparr>"

text \<open>A world whose client holds a given token set and given tenants, before any call.\<close>

definition demo_world :: "jsval \<Rightarrow> jsval list option \<Rightarrow> world" where
  "demo_world ts tn = \<lparr> xeroClient = \<lparr> tokenSet = ts, tenants = tn \<rparr>, trace = [] \<rparr>"

definition token :: "rat \<Rightarrow> jsval" where
  "token e = JObj [(''access_token'', JStr ''a''), (''expires_at'', JNum (Fin e))]"

definition token_rt :: "rat \<Rightarrow> jsval" where
  "token_rt e =
     JObj [(''access_token'', JStr ''a''), (''refresh_token'', JStr ''r''),
           (''expires_at'', JNum (Fin e))]"

definition tenant :: "string \<Rightarrow> jsval" where
  "tenant i = JObj [(''tenantId'', JStr i), (''tenantType'', JStr ''ORGANISATION'')]"

text \<open>The error of \<open>ensureAuthenticated\<close>.\<close>

definition auth_required :: exn where
  "auth_required = Error ''Xero authentication required. Please connect via OAuth flow.''"


section \<open>Steps of the methods\<close>

lemmas prog_defs = bindP_def try_catch_def returnP_def throwP_def liftE_def call_redis_def
  call_sdk_def console_error_def

lemma isExpiredOrNearExpiry_eq:
  "isExpiredOrNearExpiry E ts w =
     (Inr (case Number E (opt_member ts ''expires_at'') of
             Inl _ \<Rightarrow> True
           | Inr n \<Rightarrow> \<not> truthy_num n
                      \<or> num_lt (num_sub n (Fin (of_nat (Date_now E w div 1000)))) (Fin 60)), w)"
  by (simp add: isExpiredOrNearExpiry_def try_catch_def bindP_def liftE_def returnP_def
      Let_def split: sum.split)

lemma isExpiredOrNearExpiry_pair:
  "isExpiredOrNearExpiry E ts w = (fst (isExpiredOrNearExpiry E ts w), w)"
  by (simp add: isExpiredOrNearExpiry_eq)

lemma truthy_opt_member: "truthy (opt_member v k) \<Longrightarrow> truthy v"
  by (cases v) simp_all

lemma saveTokenSet_ok: "fst (saveTokenSet E ts w) = Inr ()"
  by (simp add: saveTokenSet_def prog_defs Let_def split: sum.split prod.split)

lemma loadTokenSet_ok: "\<exists>v. fst (loadTokenSet E w) = Inr v"
  by (simp add: loadTokenSet_def prog_defs Let_def split: sum.split prod.split option.split)

lemma trace_setClientTokenSet: "set (trace w) \<subseteq> set (trace (snd (setClientTokenSet E ts w)))"
  by (auto simp add: setClientTokenSet_def prog_defs record_event_def Let_def)

lemma trace_setClientTokenSet_cases:
  "trace (snd (setClientTokenSet E ts w)) = trace w \<or>
   trace (snd (setClientTokenSet E ts w)) = trace w @ [SetTokenSet ts]"
  by (simp add: setClientTokenSet_def prog_defs record_event_def Let_def)

lemma trace_saveTokenSet: "set (trace w) \<subseteq> set (trace (snd (saveTokenSet E ts w)))"
  by (auto simp add: saveTokenSet_def prog_defs record_event_def Let_def
      split: sum.split prod.split)

text \<open>The first part of \<open>ensureAuthenticated\<close> falls through to the load unless the
  client's token set is truthy and not expired.\<close>

lemma ensureAuthenticated_not_fresh:
  assumes "\<not> (truthy (tokenSet (xeroClient w)) \<and>
              fst (isExpiredOrNearExpiry E (tokenSet (xeroClient w)) w) = Inr False)"
  shows "ensureAuthenticated E w = ensureAuthenticated_load E w"
proof (cases "truthy (tokenSet (xeroClient w))")
  case False
  then show ?thesis by (simp add: ensureAuthenticated_def Let_def)
next
  case True
  with assms have "fst (isExpiredOrNearExpiry E (tokenSet (xeroClient w)) w) \<noteq> Inr False"
    by simp
  then have "isExpiredOrNearExpiry E (tokenSet (xeroClient w)) w = (Inr True, w)"
    by (simp add: isExpiredOrNearExpiry_eq)
  with True show ?thesis
    by (simp add: ensureAuthenticated_def Let_def bindP_def)
qed

text \<open>The middle part goes on to the refresh when the stored record, applied to the
  client, is expired.\<close>

lemma ensureAuthenticated_load_stale:
  assumes "loadTokenSet E w = (Inr stored, w1)"
    and "truthy stored"
    and "setClientTokenSet E stored w1 = (Inr (), w2)"
    and "fst (isExpiredOrNearExpiry E stored w2) = Inr True"
  shows "ensureAuthenticated_load E w = ensureAuthenticated_refresh E stored w2"
proof -
  have "isExpiredOrNearExpiry E stored w2 = (Inr True, w2)"
    using assms(4) isExpiredOrNearExpiry_pair [of E stored w2] by simp
  with assms(1-3) show ?thesis
    by (simp add: ensureAuthenticated_load_def bindP_def)
qed

text \<open>The last part, by what the SDK's refresh answers.\<close>

lemma refresh_no_token:
  "\<not> truthy (opt_member stored ''refresh_token'') \<Longrightarrow>
   ensureAuthenticated_refresh E stored w = (Inl auth_required, w)"
  by (simp add: ensureAuthenticated_refresh_def prog_defs auth_required_def)

lemma refresh_outcome:
  assumes rt: "truthy (opt_member stored ''refresh_token'')"
    and w3: "w3 = record_event (RefreshWithRefreshToken (env_val (XERO_CLIENT_ID E))
                (env_val (XERO_CLIENT_SECRET E)) (opt_member stored ''refresh_token'')) w"
    and r: "sdk_refreshWithRefreshToken E (env_val (XERO_CLIENT_ID E))
              (env_val (XERO_CLIENT_SECRET E)) (opt_member stored ''refresh_token'') w3 = (r, c)"
  shows "ensureAuthenticated_refresh E stored w =
     (case r of
        Inl x \<Rightarrow> (Inl auth_required,
                  record_event (ConsoleError ''Token refresh failed:'' x) (w3\<lparr>xeroClient := c\<rparr>))
      | Inr refreshed \<Rightarrow>
          if \<not> truthy refreshed then (Inl auth_required, w3\<lparr>xeroClient := c\<rparr>)
          else (case setClientTokenSet E refreshed (w3\<lparr>xeroClient := c\<rparr>) of
                  (Inl x, w4) \<Rightarrow>
                    (Inl auth_required, record_event (ConsoleError ''Token refresh failed:'' x) w4)
                | (Inr u, w4) \<Rightarrow> (Inr (), snd (saveTokenSet E refreshed w4))))"
proof (cases r)
  case (Inl x)
  then show ?thesis using rt r unfolding w3
    by (simp add: ensureAuthenticated_refresh_def prog_defs auth_required_def Let_def)
next
  case (Inr refreshed)
  show ?thesis
  proof (cases "truthy refreshed")
    case False
    then show ?thesis using rt r Inr unfolding w3
      by (simp add: ensureAuthenticated_refresh_def prog_defs auth_required_def Let_def)
  next
    case True
    obtain o4 w4 where a: "setClientTokenSet E refreshed (w3\<lparr>xeroClient := c\<rparr>) = (o4, w4)"
      by (cases "setClientTokenSet E refreshed (w3\<lparr>xeroClient := c\<rparr>)")
    show ?thesis
    proof (cases o4)
      case (Inl x)
      then show ?thesis using rt r Inr True a unfolding w3
        by (simp add: ensureAuthenticated_refresh_def bindP_def try_catch_def returnP_def
            throwP_def call_sdk_def console_error_def auth_required_def Let_def)
    next
      case (Inr u)
      obtain w5 where sv: "saveTokenSet E refreshed w4 = (Inr (), w5)"
        using saveTokenSet_ok [of E refreshed w4] by (cases "saveTokenSet E refreshed w4") simp
      from Inr show ?thesis using rt r \<open>r = Inr refreshed\<close> True a sv unfolding w3
        by (simp add: ensureAuthenticated_refresh_def bindP_def try_catch_def returnP_def
            throwP_def call_sdk_def console_error_def auth_required_def Let_def)
    qed
  qed
qed


lemma saveTokenSet_writes:
  "JSON_stringify E (if truthy ts then ts else JObj []) = Inr data \<Longrightarrow>
   RedisSet TOKEN_SET_KEY data \<in> set (trace (snd (saveTokenSet E ts w)))"
  by (simp add: saveTokenSet_def prog_defs record_event_def Let_def split: sum.split)

text \<open>The equations that evaluate the methods on the inputs of the examples.\<close>

lemmas eval_defs = ensureAuthenticated_def ensureAuthenticated_load_def
  ensureAuthenticated_refresh_def loadTokenSet_def saveTokenSet_def setClientTokenSet_def
  isExpiredOrNearExpiry_eq getTenants_def getActiveTenantId_def prog_defs record_event_def
  env_val_def TOKEN_SET_KEY_def Let_def
  demo_env_def cached_env_def refreshing_env_def demo_world_def token_def token_rt_def tenant_def


section \<open>The freshness policy\<close>

text \<open>
  Claim C3. The freshness check is the negation of \<open>isExpiredOrNearExpiry\<close>. For every
  token record and clock value, a record with a numeric \<open>expires_at\<close> is judged fresh
  (not expired) if and only if \<open>expires_at\<close> is positive and \<open>expires_at - now\<close>
  is at least the margin of 60 seconds; so a zero or negative \<open>expires_at\<close> is never
  fresh, and neither is a record without \<open>expires_at\<close>. The check leaves the world as
  it is.
\<close>

theorem fresh_iff_positive_and_margin:
  "(opt_member ts ''expires_at'' = JNum (Fin e) \<longrightarrow>
      isExpiredOrNearExpiry E ts w =
        (Inr (\<not> (0 < e \<and> 60 \<le> e - of_nat (Date_now E w div 1000))), w)) \<and>
   (opt_member ts ''expires_at'' = JUndefined \<longrightarrow>
      isExpiredOrNearExpiry E ts w = (Inr True, w))"
proof -
  have "0 \<le> (of_nat (Date_now E w div 1000) :: rat)" by simp
  then show ?thesis
    by (auto simp add: isExpiredOrNearExpiry_eq)
qed

theorem fresh_iff_positive_and_margin_witness:
  "isExpiredOrNearExpiry demo_env (token 1070) (demo_world JNull None)
     = (Inr False, demo_world JNull None) \<and>
   isExpiredOrNearExpiry demo_env (token 1010) (demo_world JNull None)
     = (Inr True, demo_world JNull None) \<and>
   isExpiredOrNearExpiry demo_env (token 0) (demo_world JNull None)
     = (Inr True, demo_world JNull None) \<and>
   isExpiredOrNearExpiry demo_env (token (- 5)) (demo_world JNull None)
     = (Inr True, demo_world JNull None) \<and>
   isExpiredOrNearExpiry demo_env (JObj []) (demo_world JNull None)
     = (Inr True, demo_world JNull None)"
  using fresh_iff_positive_and_margin [of "token 1070" 1070 demo_env "demo_world JNull None"]
    fresh_iff_positive_and_margin [of "token 1010" 1010 demo_env "demo_world JNull None"]
    fresh_iff_positive_and_margin [of "token 0" 0 demo_env "demo_world JNull None"]
    fresh_iff_positive_and_margin [of "token (- 5)" "- 5" demo_env "demo_world JNull None"]
    fresh_iff_positive_and_margin [of "JObj []" 0 demo_env "demo_world JNull None"]
  by (simp add: token_def demo_env_def)

text \<open>
  Claim C2, amended. The boundary belongs to the fresh side: for every token record
  with a numeric \<open>expires_at\<close> and every clock value, the freshness check is false
  (the record is expired) whenever \<open>expires_at < now + 60\<close> and true whenever
  \<open>expires_at \<ge> now + 60\<close>; it is false whenever \<open>expires_at\<close> is missing, zero or
  negative.
\<close>

theorem isExpiredOrNearExpiry_margin:
  "(opt_member ts ''expires_at'' = JNum (Fin e) \<longrightarrow>
      (e < of_nat (Date_now E w div 1000) + 60 \<longrightarrow>
         isExpiredOrNearExpiry E ts w = (Inr True, w)) \<and>
      (of_nat (Date_now E w div 1000) + 60 \<le> e \<longrightarrow>
         isExpiredOrNearExpiry E ts w = (Inr False, w)) \<and>
      (e \<le> 0 \<longrightarrow> isExpiredOrNearExpiry E ts w = (Inr True, w))) \<and>
   (opt_member ts ''expires_at'' = JUndefined \<longrightarrow>
      isExpiredOrNearExpiry E ts w = (Inr True, w))"
proof -
  have "0 \<le> (of_nat (Date_now E w div 1000) :: rat)" by simp
  then show ?thesis
    by (auto simp add: isExpiredOrNearExpiry_eq)
qed

theorem isExpiredOrNearExpiry_margin_witness:
  "isExpiredOrNearExpiry demo_env (token 1059) (demo_world JNull None)
     = (Inr True, demo_world JNull None) \<and>
   isExpiredOrNearExpiry demo_env (token 1060) (demo_world JNull None)
     = (Inr False, demo_world JNull None) \<and>
   isExpiredOrNearExpiry demo_env (token (- 1)) (demo_world JNull None)
     = (Inr True, demo_world JNull None) \<and>
   isExpiredOrNearExpiry demo_env (JObj [(''access_token'', JStr ''a'')]) (demo_world JNull None)
     = (Inr True, demo_world JNull None)"
  using isExpiredOrNearExpiry_margin [of "token 1059" 1059 demo_env "demo_world JNull None"]
    isExpiredOrNearExpiry_margin [of "token 1060" 1060 demo_env "demo_world JNull None"]
    isExpiredOrNearExpiry_margin [of "token (- 1)" "- 1" demo_env "demo_world JNull None"]
    isExpiredOrNearExpiry_margin [of "JObj [(''access_token'', JStr ''a'')]" 0 demo_env
      "demo_world JNull None"]
  by (simp add: token_def demo_env_def)

text \<open>Claim C2 as stated fails at \<open>expires_at = now + 60\<close>: at second 1000, a record
  expiring at second 1060 satisfies \<open>expires_at \<le> now + 60\<close> and is not expired.\<close>

theorem isExpiredOrNearExpiry_boundary_counterexample:
  "opt_member (token 1060) ''expires_at'' = JNum (Fin 1060) \<and>
   (1060 :: rat) \<le> of_nat (Date_now demo_env (demo_world JNull None) div 1000) + 60 \<and>
   isExpiredOrNearExpiry demo_env (token 1060) (demo_world JNull None)
     = (Inr False, demo_world JNull None)"
  by (simp add: isExpiredOrNearExpiry_eq token_def demo_env_def)

text \<open>
  Claim C10, amended. The check never throws and never changes the world, whatever the
  shape of its argument: it answers \<open>true\<close> (expired) for \<open>null\<close> and \<open>undefined\<close>,
  for a record without \<open>expires_at\<close>, for an \<open>expires_at\<close> that \<open>Number\<close> turns
  into \<open>NaN\<close> (a non-numeric string, say), which \<open>|| 0\<close> then replaces by 0 so that
  the answer is that of a record with \<open>expires_at = 0\<close>, and when the conversion itself
  throws. (An \<open>expires_at\<close> that converts to an infinity is not replaced by 0.)
\<close>

theorem isExpiredOrNearExpiry_total:
  "(\<exists>b. isExpiredOrNearExpiry E ts w = (Inr b, w)) \<and>
   isExpiredOrNearExpiry E JNull w = (Inr True, w) \<and>
   isExpiredOrNearExpiry E JUndefined w = (Inr True, w) \<and>
   (opt_member ts ''expires_at'' = JUndefined \<longrightarrow>
      isExpiredOrNearExpiry E ts w = (Inr True, w)) \<and>
   (Number E (opt_member ts ''expires_at'') = Inr NaN \<longrightarrow>
      isExpiredOrNearExpiry E ts w = (Inr True, w) \<and>
      isExpiredOrNearExpiry E ts w
        = isExpiredOrNearExpiry E (JObj [(''expires_at'', JNum (Fin 0))]) w) \<and>
   (Number E (opt_member ts ''expires_at'') = Inl x \<longrightarrow>
      isExpiredOrNearExpiry E ts w = (Inr True, w))"
  by (simp add: isExpiredOrNearExpiry_eq)

theorem isExpiredOrNearExpiry_total_witness:
  "isExpiredOrNearExpiry demo_env (JObj [(''expires_at'', JStr ''soon'')]) (demo_world JNull None)
     = (Inr True, demo_world JNull None) \<and>
   isExpiredOrNearExpiry demo_env (JObj [(''access_token'', JStr ''a'')]) (demo_world JNull None)
     = (Inr True, demo_world JNull None) \<and>
   isExpiredOrNearExpiry
     (demo_env\<lparr>ObjectToNumber := (\<lambda>_. Inl (TypeError ''Cannot convert object to primitive value''))\<rparr>)
     (JObj [(''expires_at'', JObj [])]) (demo_world JNull None)
     = (Inr True, demo_world JNull None)"
  using isExpiredOrNearExpiry_total [of demo_env "JObj [(''expires_at'', JStr ''soon'')]"
      "demo_world JNull None" "Thrown []"]
    isExpiredOrNearExpiry_total [of demo_env "JObj [(''access_token'', JStr ''a'')]"
      "demo_world JNull None" "Thrown []"]
    isExpiredOrNearExpiry_total
      [of "demo_env\<lparr>ObjectToNumber := (\<lambda>_. Inl (TypeError ''Cannot convert object to primitive value''))\<rparr>"
        "JObj [(''expires_at'', JObj [])]" "demo_world JNull None"
        "TypeError ''Cannot convert object to primitive value''"]
  by (simp add: demo_env_def)

text \<open>Claim C10 as stated fails for a value that converts to no finite number and is not
  \<open>NaN\<close>: \<open>expires_at = Infinity\<close> is kept as it is, and the record is reported as
  not expired.\<close>

theorem isExpiredOrNearExpiry_infinity_counterexample:
  "Number demo_env (opt_member (JObj [(''expires_at'', JNum PosInf)]) ''expires_at'') = Inr PosInf \<and>
   isExpiredOrNearExpiry demo_env (JObj [(''expires_at'', JNum PosInf)]) (demo_world JNull None)
     = (Inr False, demo_world JNull None)"
  by (simp add: isExpiredOrNearExpiry_eq)


section \<open>The token cache\<close>

text \<open>
  Claim C7. \<open>saveTokenSet\<close> and \<open>loadTokenSet\<close> never throw. When the write to
  Redis fails, \<open>saveTokenSet\<close> logs the error and returns, so the statement after it
  (the \<open>return tokenSet\<close> of a code exchange) still runs. \<open>loadTokenSet\<close> returns
  \<open>null\<close> when the key holds nothing, when the payload does not parse (the error is
  logged) and when the read itself fails. The last example is a code exchange over a
  cache that refuses the write: it returns the token set.
\<close>

theorem token_cache_never_throws:
  "fst (saveTokenSet E ts w) = Inr () \<and>
   (JSON_stringify E (if truthy ts then ts else JObj []) = Inr data \<and>
    redis_set E TOKEN_SET_KEY data (record_event (RedisSet TOKEN_SET_KEY data) w) = Inl x \<longrightarrow>
      saveTokenSet E ts w =
        (Inr (), record_event (ConsoleError ''Failed to save token set:'' x)
                   (record_event (RedisSet TOKEN_SET_KEY data) w))) \<and>
   fst (bindP (saveTokenSet E ts) (\<lambda>_. returnP ts) w) = Inr ts \<and>
   (\<exists>v. fst (loadTokenSet E w) = Inr v) \<and>
   (redis_get E TOKEN_SET_KEY (record_event (RedisGet TOKEN_SET_KEY) w) = Inr None \<longrightarrow>
      loadTokenSet E w = (Inr JNull, record_event (RedisGet TOKEN_SET_KEY) w)) \<and>
   (redis_get E TOKEN_SET_KEY (record_event (RedisGet TOKEN_SET_KEY) w) = Inr (Some raw) \<and>
    JSON_parse E raw = Inl x \<longrightarrow>
      fst (loadTokenSet E w) = Inr JNull) \<and>
   (redis_get E TOKEN_SET_KEY (record_event (RedisGet TOKEN_SET_KEY) w) = Inl x \<longrightarrow>
      loadTokenSet E w =
        (Inr JNull, record_event (ConsoleError ''Failed to load token set:'' x)
                      (record_event (RedisGet TOKEN_SET_KEY) w)))"
proof (intro conjI)
  show "fst (saveTokenSet E ts w) = Inr ()" by (rule saveTokenSet_ok)
  show "\<exists>v. fst (loadTokenSet E w) = Inr v" by (rule loadTokenSet_ok)
  show "fst (bindP (saveTokenSet E ts) (\<lambda>_. returnP ts) w) = Inr ts"
    using saveTokenSet_ok [of E ts w]
    by (cases "saveTokenSet E ts w") (simp add: bindP_def returnP_def)
qed (simp_all add: saveTokenSet_def loadTokenSet_def prog_defs Let_def)

theorem token_cache_never_throws_witness:
  "saveTokenSet (demo_env\<lparr>redis_set := (\<lambda>_ _ _. Inl (Thrown ''ECONNREFUSED''))\<rparr>)
     (token 5000) (demo_world JNull None)
     = (Inr (), \<lparr>xeroClient = \<lparr>tokenSet = JNull, tenants = None\<rparr>,
                 trace = [RedisSet ''xero:oauth:tokenSet'' ''{}'',
                          ConsoleError ''Failed to save token set:'' (Thrown ''ECONNREFUSED'')]\<rparr>) \<and>
   loadTokenSet demo_env (demo_world JNull None)
     = (Inr JNull, \<lparr>xeroClient = \<lparr>tokenSet = JNull, tenants = None\<rparr>,
                    trace = [RedisGet ''xero:oauth:tokenSet'']\<rparr>) \<and>
   loadTokenSet (demo_env\<lparr>redis_get := (\<lambda>_ _. Inr (Some ''{oops''))\<rparr>) (demo_world JNull None)
     = (Inr JNull, \<lparr>xeroClient = \<lparr>tokenSet = JNull, tenants = None\<rparr>,
                    trace = [RedisGet ''xero:oauth:tokenSet'',
                             ConsoleError ''Failed to load token set:''
                               (Thrown ''SyntaxError: Unexpected token'')]\<rparr>) \<and>
   loadTokenSet (demo_env\<lparr>redis_get := (\<lambda>_ _. Inl (Thrown ''ECONNREFUSED''))\<rparr>)
     (demo_world JNull None)
     = (Inr JNull, \<lparr>xeroClient = \<lparr>tokenSet = JNull, tenants = None\<rparr>,
                    trace = [RedisGet ''xero:oauth:tokenSet'',
                             ConsoleError ''Failed to load token set:'' (Thrown ''ECONNREFUSED'')]\<rparr>) \<and>
   getTokenFromCode
     (demo_env\<lparr>sdk_apiCallback := (\<lambda>_ w. (Inr (token 5000), xeroClient w)),
                redis_set := (\<lambda>_ _ _. Inl (Thrown ''ECONNREFUSED''))\<rparr>)
     (JStr ''abc'') (demo_world JNull None)
     = (Inr (token 5000),
        \<lparr>xeroClient = \<lparr>tokenSet = token 5000, tenants = Some []\<rparr>,
         trace = [ApiCallback ''http://localhost:3000/xero/callback?code=abc'',
                  SetTokenSet (token 5000), UpdateTenants,
                  RedisSet ''xero:oauth:tokenSet'' ''{}'',
                  ConsoleError ''Failed to save token set:'' (Thrown ''ECONNREFUSED'')]\<rparr>)"
  using token_cache_never_throws
      [of "demo_env\<lparr>redis_set := (\<lambda>_ _ _. Inl (Thrown ''ECONNREFUSED''))\<rparr>" "token 5000"
        "demo_world JNull None" "''{}''" "Thrown ''ECONNREFUSED''" "[]"]
    token_cache_never_throws
      [of demo_env JNull "demo_world JNull None" "[]" "Thrown []" "[]"]
    token_cache_never_throws
      [of "demo_env\<lparr>redis_get := (\<lambda>_ _. Inr (Some ''{oops''))\<rparr>" JNull
        "demo_world JNull None" "[]" "Thrown ''SyntaxError: Unexpected token''" "''{oops''"]
    token_cache_never_throws
      [of "demo_env\<lparr>redis_get := (\<lambda>_ _. Inl (Thrown ''ECONNREFUSED''))\<rparr>" JNull
        "demo_world JNull None" "[]" "Thrown ''ECONNREFUSED''" "[]"]
  by (simp add: getTokenFromCode_def redirectUris_def trim_def js_space_def eval_defs)


section \<open>The session\<close>

text \<open>
  Claim C8. When the client already holds a truthy token set that is not expired,
  \<open>ensureAuthenticated\<close> returns at once and leaves the world as it is: the client's
  token set is unchanged and nothing is added to the trace (no read or write of the
  cache, no refresh). A second call in that state does the same.
\<close>

theorem ensureAuthenticated_fresh_noop:
  "truthy (tokenSet (xeroClient w)) \<Longrightarrow>
   fst (isExpiredOrNearExpiry E (tokenSet (xeroClient w)) w) = Inr False \<Longrightarrow>
   ensureAuthenticated E w = (Inr (), w) \<and>
   bindP (ensureAuthenticated E) (\<lambda>_. ensureAuthenticated E) w = (Inr (), w)"
proof -
  assume t: "truthy (tokenSet (xeroClient w))"
    and f: "fst (isExpiredOrNearExpiry E (tokenSet (xeroClient w)) w) = Inr False"
  from f have "isExpiredOrNearExpiry E (tokenSet (xeroClient w)) w = (Inr False, w)"
    using isExpiredOrNearExpiry_pair [of E "tokenSet (xeroClient w)" w] by simp
  with t have "ensureAuthenticated E w = (Inr (), w)"
    by (simp add: ensureAuthenticated_def Let_def bindP_def returnP_def)
  then show ?thesis by (simp add: bindP_def)
qed

theorem ensureAuthenticated_fresh_noop_witness:
  "ensureAuthenticated demo_env (demo_world (token 5000) None)
     = (Inr (), demo_world (token 5000) None) \<and>
   bindP (ensureAuthenticated demo_env) (\<lambda>_. ensureAuthenticated demo_env)
     (demo_world (token 5000) None) = (Inr (), demo_world (token 5000) None)"
  using ensureAuthenticated_fresh_noop [of "demo_world (token 5000) None" demo_env]
  by (simp add: isExpiredOrNearExpiry_eq demo_env_def demo_world_def token_def)

text \<open>
  Claim C1, amended. The refresh looks at the record loaded from the cache only. Whenever
  the client's own token set is absent or expired, and the record loaded from the cache
  is accepted by the client, is expired and carries a truthy \<open>refresh_token\<close>, the
  SDK's refresh is called with \<open>XERO_CLIENT_ID\<close>, \<open>XERO_CLIENT_SECRET\<close> and that
  refresh token; and when the refresh answers with a truthy record that the client
  accepts, the record is applied, \<open>saveTokenSet\<close> is run on it (the serialised
  record is written under the fixed key) and \<open>ensureAuthenticated\<close> returns without
  error.
\<close>

theorem ensureAuthenticated_refreshes_stored:
  assumes mem: "\<not> (truthy (tokenSet (xeroClient w)) \<and>
                   fst (isExpiredOrNearExpiry E (tokenSet (xeroClient w)) w) = Inr False)"
    and load: "loadTokenSet E w = (Inr stored, w1)"
    and appl: "setClientTokenSet E stored w1 = (Inr (), w2)"
    and stale: "fst (isExpiredOrNearExpiry E stored w2) = Inr True"
    and rt: "truthy (opt_member stored ''refresh_token'')"
    and w3: "w3 = record_event (RefreshWithRefreshToken (env_val (XERO_CLIENT_ID E))
                (env_val (XERO_CLIENT_SECRET E)) (opt_member stored ''refresh_token'')) w2"
  shows "RefreshWithRefreshToken (env_val (XERO_CLIENT_ID E)) (env_val (XERO_CLIENT_SECRET E))
           (opt_member stored ''refresh_token'')
           \<in> set (trace (snd (ensureAuthenticated E w))) \<and>
         (\<forall>refreshed c w4.
            sdk_refreshWithRefreshToken E (env_val (XERO_CLIENT_ID E))
              (env_val (XERO_CLIENT_SECRET E)) (opt_member stored ''refresh_token'') w3
              = (Inr refreshed, c) \<and>
            truthy refreshed \<and>
            setClientTokenSet E refreshed (w3\<lparr>xeroClient := c\<rparr>) = (Inr (), w4) \<longrightarrow>
            ensureAuthenticated E w = (Inr (), snd (saveTokenSet E refreshed w4)) \<and>
            (\<forall>data. JSON_stringify E refreshed = Inr data \<longrightarrow>
               RedisSet TOKEN_SET_KEY data \<in> set (trace (snd (ensureAuthenticated E w)))))"
proof -
  let ?ev = "RefreshWithRefreshToken (env_val (XERO_CLIENT_ID E))
      (env_val (XERO_CLIENT_SECRET E)) (opt_member stored ''refresh_token'')"
  let ?f = "sdk_refreshWithRefreshToken E (env_val (XERO_CLIENT_ID E))
      (env_val (XERO_CLIENT_SECRET E)) (opt_member stored ''refresh_token'')"
  have eq: "ensureAuthenticated E w = ensureAuthenticated_refresh E stored w2"
    using ensureAuthenticated_not_fresh [OF mem]
      ensureAuthenticated_load_stale [OF load truthy_opt_member [OF rt] appl stale]
    by simp
  obtain r c where rc: "?f w3 = (r, c)" by (cases "?f w3")
  note out = refresh_outcome [OF rt w3 rc]
  have in3: "?ev \<in> set (trace (w3\<lparr>xeroClient := c\<rparr>))"
    by (simp add: w3 record_event_def)
  have called: "?ev \<in> set (trace (snd (ensureAuthenticated_refresh E stored w2)))"
  proof (cases r)
    case (Inl x)
    then show ?thesis using out in3 by (simp add: record_event_def)
  next
    case (Inr refreshed)
    show ?thesis
    proof (cases "truthy refreshed")
      case False
      then show ?thesis using out Inr in3 by simp
    next
      case True
      obtain o4 w4 where a: "setClientTokenSet E refreshed (w3\<lparr>xeroClient := c\<rparr>) = (o4, w4)"
        by (cases "setClientTokenSet E refreshed (w3\<lparr>xeroClient := c\<rparr>)")
      have in4: "?ev \<in> set (trace w4)"
        using trace_setClientTokenSet [of "w3\<lparr>xeroClient := c\<rparr>" E refreshed] a in3 by auto
      show ?thesis
      proof (cases o4)
        case (Inl x)
        then show ?thesis using out \<open>r = Inr refreshed\<close> True a in4
          by (simp add: record_event_def)
      next
        case (Inr u)
        then show ?thesis
          using out \<open>r = Inr refreshed\<close> True a in4 trace_saveTokenSet [of w4 E refreshed]
          by auto
      qed
    qed
  qed
  have ok: "ensureAuthenticated_refresh E stored w2 = (Inr (), snd (saveTokenSet E refreshed w4))"
    if "?f w3 = (Inr refreshed, c')" "truthy refreshed"
      "setClientTokenSet E refreshed (w3\<lparr>xeroClient := c'\<rparr>) = (Inr (), w4)"
    for refreshed c' w4
    using refresh_outcome [OF rt w3 that(1)] that(2,3) by simp
  have saved: "RedisSet TOKEN_SET_KEY data \<in> set (trace (snd (saveTokenSet E refreshed w4)))"
    if "truthy refreshed" "JSON_stringify E refreshed = Inr data" for refreshed data w4
    using saveTokenSet_writes [of E refreshed data w4] that by simp
  show ?thesis using eq called ok saved by simp
qed

theorem ensureAuthenticated_refreshes_stored_witness:
  "ensureAuthenticated (refreshing_env (token_rt 900) (token_rt 5000)) (demo_world JUndefined None)
     = (Inr (),
        \<lparr>xeroClient = \<lparr>tokenSet = token_rt 5000, tenants = None\<rparr>,
         trace = [RedisGet ''xero:oauth:tokenSet'',
                  SetTokenSet (token_rt 900),
                  RefreshWithRefreshToken (JStr ''id'') (JStr ''secret'') (JStr ''r''),
                  SetTokenSet (token_rt 5000),
                  RedisSet ''xero:oauth:tokenSet'' ''{}'']\<rparr>)"
  using ensureAuthenticated_refreshes_stored
    [where E = "refreshing_env (token_rt 900) (token_rt 5000)"
       and w = "demo_world JUndefined None"
       and stored = "token_rt 900"
       and ?w1.0 = "\<lparr>xeroClient = \<lparr>tokenSet = JUndefined, tenants = None\<rparr>,
                    trace = [RedisGet ''xero:oauth:tokenSet'']\<rparr>"
       and ?w2.0 = "\<lparr>xeroClient = \<lparr>tokenSet = token_rt 900, tenants = None\<rparr>,
                    trace = [RedisGet ''xero:oauth:tokenSet'', SetTokenSet (token_rt 900)]\<rparr>"
       and ?w3.0 = "\<lparr>xeroClient = \<lparr>tokenSet = token_rt 900, tenants = None\<rparr>,
                    trace = [RedisGet ''xero:oauth:tokenSet'', SetTokenSet (token_rt 900),
                      RefreshWithRefreshToken (JStr ''id'') (JStr ''secret'') (JStr ''r'')]\<rparr>"]
  by (simp add: eval_defs)

text \<open>Claim C1 as stated fails for the in-memory record: a client holding an expired
  token set with a refresh token, over an empty cache, makes no refresh call (the trace
  holds the cache read only) and \<open>ensureAuthenticated\<close> throws. It also fails for a
  record loaded from the cache that the SDK's \<open>setTokenSet\<close> refuses: the error of
  the SDK leaves \<open>ensureAuthenticated\<close> before any refresh call.\<close>

theorem ensureAuthenticated_memory_refresh_token_counterexample:
  "truthy (opt_member (token_rt 900) ''refresh_token'') \<and>
   isExpiredOrNearExpiry demo_env (token_rt 900) (demo_world (token_rt 900) None)
     = (Inr True, demo_world (token_rt 900) None) \<and>
   ensureAuthenticated demo_env (demo_world (token_rt 900) None)
     = (Inl (Error ''Xero authentication required. Please connect via OAuth flow.''),
        \<lparr>xeroClient = \<lparr>tokenSet = token_rt 900, tenants = None\<rparr>,
         trace = [RedisGet ''xero:oauth:tokenSet'']\<rparr>) \<and>
   ensureAuthenticated
     ((refreshing_env (token_rt 900) (token_rt 5000))
        \<lparr>sdk_setTokenSet := (\<lambda>_ w. (Inl (Error ''Access token is undefined!''), xeroClient w))\<rparr>)
     (demo_world JUndefined None)
     = (Inl (Error ''Access token is undefined!''),
        \<lparr>xeroClient = \<lparr>tokenSet = JUndefined, tenants = None\<rparr>,
         trace = [RedisGet ''xero:oauth:tokenSet'', SetTokenSet (token_rt 900)]\<rparr>)"
  by (simp add: eval_defs)


section \<open>The public operations\<close>

text \<open>
  Claim C6, amended. Whenever the client's own token set is absent or expired, and the
  cache holds a token record whose \<open>expires_at\<close> is in the past and which has no
  truthy \<open>refresh_token\<close>, and the client accepts that record, \<open>getTenants\<close>
  fails with the authentication-required error, and the events of the call contain no
  fetch of the tenants.
\<close>

theorem getTenants_authentication_required:
  assumes mem: "\<not> (truthy (tokenSet (xeroClient w)) \<and>
                   fst (isExpiredOrNearExpiry E (tokenSet (xeroClient w)) w) = Inr False)"
    and cache: "redis_get E TOKEN_SET_KEY (record_event (RedisGet TOKEN_SET_KEY) w) = Inr (Some raw)"
    and raw: "raw \<noteq> []"
    and parse: "JSON_parse E raw = Inr stored"
    and appl: "setClientTokenSet E stored (record_event (RedisGet TOKEN_SET_KEY) w) = (Inr (), w2)"
    and exp: "opt_member stored ''expires_at'' = JNum (Fin e)"
    and past: "e < of_nat (Date_now E w2 div 1000)"
    and no_rt: "\<not> truthy (opt_member stored ''refresh_token'')"
  shows "getTenants E w =
           (Inl (Error ''Xero authentication required. Please connect via OAuth flow.''), w2) \<and>
         UpdateTenants \<notin> set (drop (length (trace w)) (trace w2))"
proof -
  have load: "loadTokenSet E w = (Inr stored, record_event (RedisGet TOKEN_SET_KEY) w)"
    using cache raw parse by (simp add: loadTokenSet_def prog_defs Let_def)
  have tr: "truthy stored" using exp by (cases stored) simp_all
  have stale: "fst (isExpiredOrNearExpiry E stored w2) = Inr True"
    using exp past by (simp add: isExpiredOrNearExpiry_eq)
  have "ensureAuthenticated E w = ensureAuthenticated_refresh E stored w2"
    using ensureAuthenticated_not_fresh [OF mem]
      ensureAuthenticated_load_stale [OF load tr appl stale]
    by simp
  then have fail: "ensureAuthenticated E w = (Inl auth_required, w2)"
    using refresh_no_token [OF no_rt] by simp
  have calls: "UpdateTenants \<notin> set (drop (length (trace w)) (trace w2))"
    using trace_setClientTokenSet_cases [of E stored "record_event (RedisGet TOKEN_SET_KEY) w"] appl
    by (auto simp add: record_event_def)
  show ?thesis using fail calls
    by (simp add: getTenants_def bindP_def auth_required_def)
qed

theorem getTenants_authentication_required_witness:
  "getTenants (cached_env (token 900)) (demo_world JUndefined None)
     = (Inl (Error ''Xero authentication required. Please connect via OAuth flow.''),
        \<lparr>xeroClient = \<lparr>tokenSet = token 900, tenants = None\<rparr>,
         trace = [RedisGet ''xero:oauth:tokenSet'', SetTokenSet (token 900)]\<rparr>)"
  using getTenants_authentication_required
    [where E = "cached_env (token 900)" and w = "demo_world JUndefined None"
       and raw = "''cached''" and stored = "token 900" and e = 900
       and ?w2.0 = "\<lparr>xeroClient = \<lparr>tokenSet = token 900, tenants = None\<rparr>,
                    trace = [RedisGet ''xero:oauth:tokenSet'', SetTokenSet (token 900)]\<rparr>"]
  by (simp add: eval_defs)

text \<open>Claim C6 as stated fails when the client itself holds a fresh token set: the cache
  holds the record expired 100 seconds ago, without a refresh token, and \<open>getTenants\<close>
  never reads it; it fetches the tenants and returns them. It also fails when the SDK's
  \<open>setTokenSet\<close> refuses the cached record: \<open>getTenants\<close> then fails with the
  error of the SDK, not with the authentication-required one.\<close>

theorem getTenants_fresh_memory_counterexample:
  "loadTokenSet (cached_env (token 900)) (demo_world (token 5000) None)
     = (Inr (token 900), \<lparr>xeroClient = \<lparr>tokenSet = token 5000, tenants = None\<rparr>,
                          trace = [RedisGet ''xero:oauth:tokenSet'']\<rparr>) \<and>
   opt_member (token 900) ''refresh_token'' = JUndefined \<and>
   Date_now (cached_env (token 900)) (demo_world (token 5000) None) div 1000 = 1000 \<and>
   getTenants (cached_env (token 900)) (demo_world (token 5000) None)
     = (Inr [], \<lparr>xeroClient = \<lparr>tokenSet = token 5000, tenants = Some []\<rparr>,
                  trace = [UpdateTenants]\<rparr>) \<and>
   getTenants
     ((cached_env (token 900))
        \<lparr>sdk_setTokenSet := (\<lambda>_ w. (Inl (Error ''Access token is undefined!''), xeroClient w))\<rparr>)
     (demo_world JUndefined None)
     = (Inl (Error ''Access token is undefined!''),
        \<lparr>xeroClient = \<lparr>tokenSet = JUndefined, tenants = None\<rparr>,
         trace = [RedisGet ''xero:oauth:tokenSet'', SetTokenSet (token 900)]\<rparr>)"
  by (simp add: eval_defs)

text \<open>
  Claim C9. What \<open>getTenants\<close> returns is \<open>x.tenants || []\<close>, an array: the client's
  tenants when the field is set and the empty array when it is still unset after the
  fetch. (The result is a list by its type; \<open>null\<close> and \<open>undefined\<close> are not among
  its values.)
\<close>

theorem getTenants_returns_array:
  "fst (getTenants E w) = Inr ts \<Longrightarrow>
   ts = (case tenants (xeroClient (snd (getTenants E w))) of None \<Rightarrow> [] | Some xs \<Rightarrow> xs) \<and>
   (tenants (xeroClient (snd (getTenants E w))) = None \<longrightarrow> ts = [])"
  by (auto simp add: getTenants_def prog_defs Let_def
      split: sum.splits prod.splits option.splits if_splits)

theorem getTenants_returns_array_witness:
  "getTenants (demo_env\<lparr>sdk_updateTenants := (\<lambda>w. (Inr (), xeroClient w))\<rparr>)
     (demo_world (token 5000) None)
     = (Inr [], \<lparr>xeroClient = \<lparr>tokenSet = token 5000, tenants = None\<rparr>,
                  trace = [UpdateTenants]\<rparr>) \<and>
   getTenants demo_env (demo_world (token 5000) (Some [tenant ''A'']))
     = (Inr [tenant ''A''], demo_world (token 5000) (Some [tenant ''A'']))"
  using getTenants_returns_array
    [of "demo_env\<lparr>sdk_updateTenants := (\<lambda>w. (Inr (), xeroClient w))\<rparr>"
      "demo_world (token 5000) None" "[]"]
    getTenants_returns_array
    [of demo_env "demo_world (token 5000) (Some [tenant ''A''])" "[tenant ''A'']"]
  by (simp add: eval_defs)

text \<open>
  Claim C4. \<open>getActiveTenantId\<close> selects the entry at index 1 of the tenant list, not
  the first one. Once \<open>ensureAuthenticated\<close> and \<open>getTenants\<close> have succeeded, a
  list of fewer than two tenants (one tenant included) makes it fail with
  \<open>No connected Xero tenant found\<close>, and a list of at least two tenants makes it return
  the \<open>tenantId\<close> of the entry at index 1. (A tenant is an entry with a truthy
  \<open>tenantId\<close>; the element type of the list is \<open>any\<close>.)
\<close>

theorem getActiveTenantId_second_entry:
  "ensureAuthenticated E w = (Inr (), w1) \<Longrightarrow> getTenants E w1 = (Inr ts, w2) \<Longrightarrow>
   (length ts < 2 \<longrightarrow>
      getActiveTenantId E w = (Inl (Error ''No connected Xero tenant found''), w2)) \<and>
   (2 \<le> length ts \<and> truthy (opt_member (ts ! 1) ''tenantId'') \<longrightarrow>
      getActiveTenantId E w = (Inr (opt_member (ts ! 1) ''tenantId''), w2))"
  by (auto simp add: getActiveTenantId_def prog_defs Let_def)

theorem getActiveTenantId_second_entry_witness:
  "getActiveTenantId demo_env (demo_world (token 5000) (Some [tenant ''A'', tenant ''B'', tenant ''C'']))
     = (Inr (JStr ''B''), demo_world (token 5000) (Some [tenant ''A'', tenant ''B'', tenant ''C''])) \<and>
   getActiveTenantId demo_env (demo_world (token 5000) (Some [tenant ''A'']))
     = (Inl (Error ''No connected Xero tenant found''), demo_world (token 5000) (Some [tenant ''A'']))"
  using getActiveTenantId_second_entry
    [of demo_env "demo_world (token 5000) (Some [tenant ''A'', tenant ''B'', tenant ''C''])"
      "demo_world (token 5000) (Some [tenant ''A'', tenant ''B'', tenant ''C''])"
      "[tenant ''A'', tenant ''B'', tenant ''C'']"
      "demo_world (token 5000) (Some [tenant ''A'', tenant ''B'', tenant ''C''])"]
    getActiveTenantId_second_entry
    [of demo_env "demo_world (token 5000) (Some [tenant ''A''])"
      "demo_world (token 5000) (Some [tenant ''A''])" "[tenant ''A'']"
      "demo_world (token 5000) (Some [tenant ''A''])"]
  by (simp add: eval_defs)

text \<open>
  Claim C5, amended. \<open>getTokenFromCode\<close> fails with \<open>Authorization code is required\<close>
  for the empty string, for \<open>undefined\<close> and for every code that is empty once trimmed;
  for every code that is not empty once trimmed it fails with the different error
  \<open>XERO_REDIRECT_URIS not configured\<close> when no redirect URI is configured. In each
  case the world is left as it is: no call has been made.
\<close>

theorem getTokenFromCode_validation:
  "getTokenFromCode E (JStr []) w = (Inl (Error ''Authorization code is required''), w) \<and>
   getTokenFromCode E JUndefined w = (Inl (Error ''Authorization code is required''), w) \<and>
   (trim c = [] \<longrightarrow>
      getTokenFromCode E (JStr c) w = (Inl (Error ''Authorization code is required''), w)) \<and>
   (trim c \<noteq> [] \<and> redirectUris E = [] \<longrightarrow>
      getTokenFromCode E (JStr c) w = (Inl (Error ''XERO_REDIRECT_URIS not configured''), w)) \<and>
   Error ''Authorization code is required'' \<noteq> Error ''XERO_REDIRECT_URIS not configured''"
  by (simp add: getTokenFromCode_def prog_defs trim_def)

theorem getTokenFromCode_validation_witness:
  "redirectUris (demo_env\<lparr>XERO_REDIRECT_URIS := None\<rparr>) = [] \<and>
   redirectUris (demo_env\<lparr>XERO_REDIRECT_URIS := Some '' , ''\<rparr>) = [] \<and>
   getTokenFromCode (demo_env\<lparr>XERO_REDIRECT_URIS := None\<rparr>) (JStr ''abc'') (demo_world JNull None)
     = (Inl (Error ''XERO_REDIRECT_URIS not configured''), demo_world JNull None) \<and>
   getTokenFromCode (demo_env\<lparr>XERO_REDIRECT_URIS := Some '' , ''\<rparr>) (JStr '' abc '') (demo_world JNull None)
     = (Inl (Error ''XERO_REDIRECT_URIS not configured''), demo_world JNull None) \<and>
   getTokenFromCode demo_env (JStr []) (demo_world JNull None)
     = (Inl (Error ''Authorization code is required''), demo_world JNull None)"
  using getTokenFromCode_validation
    [of "demo_env\<lparr>XERO_REDIRECT_URIS := None\<rparr>" "demo_world JNull None" "''abc''"]
    getTokenFromCode_validation
    [of "demo_env\<lparr>XERO_REDIRECT_URIS := Some '' , ''\<rparr>" "demo_world JNull None" "'' abc ''"]
    getTokenFromCode_validation [of demo_env "demo_world JNull None" "[]"]
  by (simp add: redirectUris_def trim_def js_space_def demo_env_def)

text \<open>Claim C5 as stated fails for a code of white space only: it is not empty, no
  redirect URI is configured, and the error is the one for a missing code.\<close>

theorem getTokenFromCode_blank_code_counterexample:
  "'' '' \<noteq> [] \<and>
   redirectUris (demo_env\<lparr>XERO_REDIRECT_URIS := None\<rparr>) = [] \<and>
   getTokenFromCode (demo_env\<lparr>XERO_REDIRECT_URIS := None\<rparr>) (JStr '' '') (demo_world JNull None)
     = (Inl (Error ''Authorization code is required''), demo_world JNull None)"
  by (simp add: getTokenFromCode_def prog_defs redirectUris_def trim_def js_space_def demo_env_def)

end
